theory Spec2Isabelle
  imports Main "HOL-Library.Word"
begin

section \<open>GuardDuty filter: the finding-criteria codec\<close>

text \<open>
  A shallow embedding of the criteria codec of the GuardDuty filter resource:
  \<open>criteriaMap\<close>, \<open>conditionAllowedForCriterion\<close>, \<open>serializeFindingCriteria\<close>,
  \<open>conditionValueToStrings\<close>, \<open>conditionValueToInt\<close>, \<open>flattenFindingCriteria\<close>,
  \<open>flattenIntCondition\<close> and \<open>flattenStringCondition\<close>.
\<close>

subsection \<open>Data\<close>

text \<open>
  A criterion is the attribute bag \<open>map[string]interface{}\<close> with the keys
  \<open>"field"\<close>, \<open>"condition"\<close> and \<open>"values"\<close>; the schema fixes their types
  (string, string, list of strings), so the type assertions of the source cannot fail.
  The key \<open>"values"\<close> is the record field \<open>vals\<close>.
\<close>

record Criterion =
  field :: string
  condition :: string
  vals :: "string list"

type_synonym int64 = "64 word"

text \<open>
  Modelled from the spec: \<open>guardduty.Condition\<close> is a struct of the service's SDK, which
  is not part of the sources. The codec reads and writes six of its attributes: two
  slices of strings and four pointers to 64-bit integers. A \<open>nil\<close> slice and an empty
  one both have length 0, which is all the codec observes, so both are \<open>[]\<close>; a
  \<open>nil\<close> pointer is \<open>None\<close>.
\<close>

record Condition =
  Equals :: "string list"
  NotEquals :: "string list"
  GreaterThan :: "int64 option"
  GreaterThanOrEqual :: "int64 option"
  LessThan :: "int64 option"
  LessThanOrEqual :: "int64 option"

text \<open>The composite literal \<open>&guardduty.Condition{}\<close>: every attribute unset.\<close>

definition newCondition :: Condition where
  "newCondition =
     \<lparr>Equals = [], NotEquals = [], GreaterThan = None, GreaterThanOrEqual = None,
      LessThan = None, LessThanOrEqual = None\<rparr>"

text \<open>
  \<open>guardduty.FindingCriteria\<close> holds one attribute, \<open>Criterion\<close>, a Go map from field
  name to a pointer to a \<open>Condition\<close>. Every pointer stored by the codec is freshly
  allocated, so no two keys share a record and the map is a partial function to
  records.
\<close>

type_synonym FindingCriteria = "string \<rightharpoonup> Condition"

text \<open>
  The outcomes of \<open>serializeFindingCriteria\<close> other than a result: its two
  \<open>fmt.Errorf\<close> returns, each with the value printed in the message, and the runtime
  panic of indexing an empty slice.
\<close>

datatype error =
    UnsupportedCondition "string list"
  | ValueNotInteger string
  | PanicIndexOutOfRange

datatype numError = ErrSyntax | ErrRange

datatype valueError =
    ExactlyOneValue "string list"
  | ParsingFailed numError

subsection \<open>The field registry\<close>

definition criteriaTable :: "(string \<times> string list) list" where
  "criteriaTable = [
    (''confidence'', [''equals'', ''not_equals'']),
    (''id'', [''equals'', ''not_equals'']),
    (''account_id'', [''equals'', ''not_equals'']),
    (''region'', [''equals'', ''not_equals'']),
    (''resource.accessKeyDetails.accessKeyId'', [''equals'', ''not_equals'']),
    (''resource.accessKeyDetails.principalId'', [''equals'', ''not_equals'']),
    (''resource.accessKeyDetails.userName'', [''equals'', ''not_equals'']),
    (''resource.accessKeyDetails.userType'', [''equals'', ''not_equals'']),
    (''resource.instanceDetails.iamInstanceProfile.id'', [''equals'', ''not_equals'']),
    (''resource.instanceDetails.imageId'', [''equals'', ''not_equals'']),
    (''resource.instanceDetails.instanceId'', [''equals'', ''not_equals'']),
    (''resource.instanceDetails.networkInterfaces.ipv6Addresses'', [''equals'', ''not_equals'']),
    (''resource.instanceDetails.networkInterfaces.privateIpAddresses.privateIpAddress'', [''equals'', ''not_equals'']),
    (''resource.instanceDetails.networkInterfaces.publicDnsName'', [''equals'', ''not_equals'']),
    (''resource.instanceDetails.networkInterfaces.publicIp'', [''equals'', ''not_equals'']),
    (''resource.instanceDetails.networkInterfaces.securityGroups.groupId'', [''equals'', ''not_equals'']),
    (''resource.instanceDetails.networkInterfaces.securityGroups.groupName'', [''equals'', ''not_equals'']),
    (''resource.instanceDetails.networkInterfaces.subnetId'', [''equals'', ''not_equals'']),
    (''resource.instanceDetails.networkInterfaces.vpcId'', [''equals'', ''not_equals'']),
    (''resource.instanceDetails.tags.key'', [''equals'', ''not_equals'']),
    (''resource.instanceDetails.tags.value'', [''equals'', ''not_equals'']),
    (''resource.resourceType'', [''equals'', ''not_equals'']),
    (''service.action.actionType'', [''equals'', ''not_equals'']),
    (''service.action.awsApiCallAction.api'', [''equals'', ''not_equals'']),
    (''service.action.awsApiCallAction.callerType'', [''equals'', ''not_equals'']),
    (''service.action.awsApiCallAction.remoteIpDetails.city.cityName'', [''equals'', ''not_equals'']),
    (''service.action.awsApiCallAction.remoteIpDetails.country.countryName'', [''equals'', ''not_equals'']),
    (''service.action.awsApiCallAction.remoteIpDetails.ipAddressV4'', [''equals'', ''not_equals'']),
    (''service.action.awsApiCallAction.remoteIpDetails.organization.asn'', [''equals'', ''not_equals'']),
    (''service.action.awsApiCallAction.remoteIpDetails.organization.asnOrg'', [''equals'', ''not_equals'']),
    (''service.action.awsApiCallAction.serviceName'', [''equals'', ''not_equals'']),
    (''service.action.dnsRequestAction.domain'', [''equals'', ''not_equals'']),
    (''service.action.networkConnectionAction.blocked'', [''equals'', ''not_equals'']),
    (''service.action.networkConnectionAction.connectionDirection'', [''equals'', ''not_equals'']),
    (''service.action.networkConnectionAction.localPortDetails.port'', [''equals'', ''not_equals'']),
    (''service.action.networkConnectionAction.protocol'', [''equals'', ''not_equals'']),
    (''service.action.networkConnectionAction.remoteIpDetails.city.cityName'', [''equals'', ''not_equals'']),
    (''service.action.networkConnectionAction.remoteIpDetails.country.countryName'', [''equals'', ''not_equals'']),
    (''service.action.networkConnectionAction.remoteIpDetails.ipAddressV4'', [''equals'', ''not_equals'']),
    (''service.action.networkConnectionAction.remoteIpDetails.organization.asn'', [''equals'', ''not_equals'']),
    (''service.action.networkConnectionAction.remoteIpDetails.organization.asnOrg'', [''equals'', ''not_equals'']),
    (''service.action.networkConnectionAction.remotePortDetails.port'', [''equals'', ''not_equals'']),
    (''service.additionalInfo.threatListName'', [''equals'', ''not_equals'']),
    (''service.archived'', [''equals'', ''not_equals'']),
    (''service.resourceRole'', [''equals'', ''not_equals'']),
    (''severity'', [''equals'', ''not_equals'']),
    (''type'', [''equals'', ''not_equals'']),
    (''updatedAt'', [''equals'', ''not_equals'', ''greater_than'', ''greater_than_or_equal'', ''less_than'', ''less_than_or_equal''])
  ]"

text \<open>
  \<open>criteriaMap()[f]\<close>: indexing a Go map with a key it does not hold yields the zero
  value, the \<open>nil\<close> slice.
\<close>

definition criteriaMap :: "string \<Rightarrow> string list" where
  "criteriaMap f = (case map_of criteriaTable f of None \<Rightarrow> [] | Some cs \<Rightarrow> cs)"

definition criteriaFields :: "string list" where
  "criteriaFields = map fst criteriaTable"

fun conditionIn :: "string list \<Rightarrow> string \<Rightarrow> bool" where
  "conditionIn [] conditionToCheck = False"
| "conditionIn (availableCondition # rest) conditionToCheck =
     (if availableCondition = conditionToCheck then True
      else conditionIn rest conditionToCheck)"

definition conditionAllowedForCriterion :: "Criterion \<Rightarrow> bool" where
  "conditionAllowedForCriterion criterion =
     conditionIn (criteriaMap (field criterion)) (condition criterion)"

subsection \<open>Integers as decimal strings\<close>

text \<open>
  Modelled from the spec: \<open>strconv.ParseInt(s, 10, 64)\<close> and
  \<open>strconv.FormatInt(i, 10)\<close> belong to the Go standard library, which is not part of
  the sources. \<open>ParseInt\<close> takes an optional sign \<open>+\<close> or \<open>-\<close> and then at least one
  decimal digit and nothing else; the digits are accumulated in an unsigned 64-bit
  integer, and a value outside the signed 64-bit range is a range error.
  \<open>FormatInt\<close> writes the shortest decimal form, with \<open>-\<close> for a negative value.
\<close>

definition isDigit :: "char \<Rightarrow> bool" where
  "isDigit c = (48 \<le> (of_char c :: nat) \<and> (of_char c :: nat) \<le> 57)"

fun parseUintLoop :: "nat \<Rightarrow> string \<Rightarrow> numError + nat" where
  "parseUintLoop n [] = Inr n"
| "parseUintLoop n (c # cs) =
     (if \<not> isDigit c then Inl ErrSyntax
      else if n \<ge> (2 ^ 64 - 1) div 10 + 1 then Inl ErrRange
      else if n * 10 + (of_char c - 48) > 2 ^ 64 - 1 then Inl ErrRange
      else parseUintLoop (n * 10 + (of_char c - 48)) cs)"

definition ParseUint :: "string \<Rightarrow> numError + nat" where
  "ParseUint s = (if s = [] then Inl ErrSyntax else parseUintLoop 0 s)"

definition parseSigned :: "bool \<Rightarrow> string \<Rightarrow> numError + int64" where
  "parseSigned neg s =
     (case ParseUint s of
        Inl e \<Rightarrow> Inl e
      | Inr un \<Rightarrow>
          if \<not> neg \<and> un \<ge> 2 ^ 63 then Inl ErrRange
          else if neg \<and> un > 2 ^ 63 then Inl ErrRange
          else Inr (if neg then - word_of_nat un else word_of_nat un))"

fun ParseInt :: "string \<Rightarrow> numError + int64" where
  "ParseInt [] = Inl ErrSyntax"
| "ParseInt (c # cs) =
     (if c = CHR ''+'' then parseSigned False cs
      else if c = CHR ''-'' then parseSigned True cs
      else parseSigned False (c # cs))"

definition digits :: string where
  "digits = ''0123456789''"

fun formatBits :: "nat \<Rightarrow> string" where
  "formatBits n =
     (if n < 10 then [digits ! n]
      else formatBits (n div 10) @ [digits ! (n mod 10)])"

declare formatBits.simps [simp del]

definition FormatInt :: "int64 \<Rightarrow> string" where
  "FormatInt i =
     (if sint i < 0 then CHR ''-'' # formatBits (nat (- sint i))
      else formatBits (nat (sint i)))"

subsection \<open>Serialize\<close>

definition conditionValueToStrings :: "string list \<Rightarrow> string list" where
  "conditionValueToStrings untypedValues = map (\<lambda>v. v) untypedValues"

definition conditionValueToInt :: "string list \<Rightarrow> valueError + int64" where
  "conditionValueToInt untypedValues =
     (case untypedValues of
        [untypedValue] \<Rightarrow>
          (case ParseInt untypedValue of
             Inl e \<Rightarrow> Inl (ParsingFailed e)
           | Inr typedValue \<Rightarrow> Inr typedValue)
      | _ \<Rightarrow> Inl (ExactlyOneValue untypedValues))"

text \<open>
  The error return of the four ordering cases,
  \<open>fmt.Errorf("Value seems to be not an integer: %v", values[0])\<close>: the error of
  \<open>conditionValueToInt\<close> is dropped and the message is built from \<open>values[0]\<close>,
  which panics when the slice is empty.
\<close>

definition notAnInteger :: "string list \<Rightarrow> error" where
  "notAnInteger vs = (case vs of [] \<Rightarrow> PanicIndexOutOfRange | v # _ \<Rightarrow> ValueNotInteger v)"

text \<open>
  The ordering cases share one shape: parse the value, then create the record of the
  field when the map has none, or else assign the attribute of the record it has. The
  attribute is passed as its update function.
\<close>

definition setOrdering ::
  "((int64 option \<Rightarrow> int64 option) \<Rightarrow> Condition \<Rightarrow> Condition) \<Rightarrow> Criterion \<Rightarrow>
     FindingCriteria \<Rightarrow> error + FindingCriteria" where
  "setOrdering upd typedCriterion criteria =
     (case conditionValueToInt (vals typedCriterion) of
        Inl err \<Rightarrow> Inl (notAnInteger (vals typedCriterion))
      | Inr v \<Rightarrow>
          (case criteria (field typedCriterion) of
             None \<Rightarrow>
               Inr (criteria(field typedCriterion \<mapsto> upd (\<lambda>_. Some v) newCondition))
           | Some r \<Rightarrow>
               Inr (criteria(field typedCriterion \<mapsto> upd (\<lambda>_. Some v) r))))"

text \<open>One iteration of the loop of \<open>serializeFindingCriteria\<close>.\<close>

definition serializeCriterion :: "Criterion \<Rightarrow> FindingCriteria \<Rightarrow> error + FindingCriteria" where
  "serializeCriterion typedCriterion criteria =
     (if \<not> conditionAllowedForCriterion typedCriterion
      then Inl (UnsupportedCondition (criteriaMap (field typedCriterion)))
      else if condition typedCriterion = ''equals''
      then Inr (criteria(field typedCriterion \<mapsto>
                  newCondition\<lparr>Equals := conditionValueToStrings (vals typedCriterion)\<rparr>))
      else if condition typedCriterion = ''greater_than''
      then setOrdering GreaterThan_update typedCriterion criteria
      else if condition typedCriterion = ''greater_than_or_equal''
      then setOrdering GreaterThanOrEqual_update typedCriterion criteria
      else if condition typedCriterion = ''less_than''
      then setOrdering LessThan_update typedCriterion criteria
      else if condition typedCriterion = ''less_than_or_equal''
      then setOrdering LessThanOrEqual_update typedCriterion criteria
      else if condition typedCriterion = ''not_equals''
      then Inr (criteria(field typedCriterion \<mapsto>
                  newCondition\<lparr>NotEquals := conditionValueToStrings (vals typedCriterion)\<rparr>))
      else Inr criteria)"

fun serializeLoop :: "Criterion list \<Rightarrow> FindingCriteria \<Rightarrow> error + FindingCriteria" where
  "serializeLoop [] criteria = Inr criteria"
| "serializeLoop (criterion # rest) criteria =
     (case serializeCriterion criterion criteria of
        Inl e \<Rightarrow> Inl e
      | Inr criteria' \<Rightarrow> serializeLoop rest criteria')"

text \<open>
  The argument is the list \<open>findingCriteria["criterion"].(*schema.Set).List()\<close>; the
  debug log line has no effect on the result.
\<close>

definition serializeFindingCriteria :: "Criterion list \<Rightarrow> error + FindingCriteria" where
  "serializeFindingCriteria inputFindingCriteria = serializeLoop inputFindingCriteria Map.empty"

subsection \<open>Flatten\<close>

definition flattenIntCondition :: "string \<Rightarrow> string \<Rightarrow> int64 \<Rightarrow> Criterion" where
  "flattenIntCondition f conditionName conditionValue =
     \<lparr>field = f, condition = conditionName, vals = [FormatInt conditionValue]\<rparr>"

definition flattenStringCondition :: "string \<Rightarrow> string \<Rightarrow> string list \<Rightarrow> Criterion" where
  "flattenStringCondition f conditionName conditionValues =
     \<lparr>field = f, condition = conditionName, vals = conditionValues\<rparr>"

definition flattenInt :: "string \<Rightarrow> string \<Rightarrow> int64 option \<Rightarrow> Criterion list" where
  "flattenInt f conditionName p =
     (case p of None \<Rightarrow> [] | Some v \<Rightarrow> [flattenIntCondition f conditionName v])"

text \<open>The body of the loop of \<open>flattenFindingCriteria\<close>: what one field appends.\<close>

definition flattenConditions :: "string \<Rightarrow> Condition \<Rightarrow> Criterion list" where
  "flattenConditions f conditions =
     (if length (Equals conditions) > 0
      then [flattenStringCondition f ''equals'' (Equals conditions)] else []) @
     (if length (NotEquals conditions) > 0
      then [flattenStringCondition f ''not_equals'' (NotEquals conditions)] else []) @
     flattenInt f ''greater_than'' (GreaterThan conditions) @
     flattenInt f ''greater_than_or_equal'' (GreaterThanOrEqual conditions) @
     flattenInt f ''less_than'' (LessThan conditions) @
     flattenInt f ''less_than_or_equal'' (LessThanOrEqual conditions)"

text \<open>
  Go does not fix the order in which \<open>range\<close> visits the keys of a map, so the order
  is an argument: \<open>iterationOrder order m\<close> says that \<open>order\<close> lists every key of
  \<open>m\<close> once. \<open>flatCriteria\<close> is the slice of that name, as the loop of
  \<open>flattenFindingCriteria\<close> leaves it.
\<close>

definition iterationOrder :: "string list \<Rightarrow> FindingCriteria \<Rightarrow> bool" where
  "iterationOrder order m = (distinct order \<and> set order = dom m)"

definition flatCriteria :: "string list \<Rightarrow> FindingCriteria \<Rightarrow> Criterion list" where
  "flatCriteria order criterion =
     concat (map (\<lambda>f. case criterion f of
                         None \<Rightarrow> []
                       | Some conditions \<Rightarrow> flattenConditions f conditions) order)"

text \<open>
  Modelled from the spec: \<open>schema.NewSet\<close> and \<open>schema.HashResource\<close> belong to the
  plugin SDK, which is not part of the sources. A \<open>schema.Set\<close> stores each element
  under its hash code and lists its elements in the order of the codes, so it keeps
  neither the order of the slice it is built from nor an element twice. It is the set
  of its elements, criteria that differ being taken to have different codes.
\<close>

type_synonym schemaSet = "Criterion set"

definition NewSet :: "Criterion list \<Rightarrow> schemaSet" where
  "NewSet items = set items"

text \<open>
  \<open>flattenFindingCriteria\<close> returns a slice of one element, the map whose key
  \<open>"criterion"\<close> holds the set built from \<open>flatCriteria\<close>.
\<close>

definition flattenFindingCriteria ::
  "string list \<Rightarrow> FindingCriteria \<Rightarrow> (string \<rightharpoonup> schemaSet) list" where
  "flattenFindingCriteria order findingCriteriaRemote =
     [[''criterion'' \<mapsto> NewSet (flatCriteria order findingCriteriaRemote)]]"

subsection \<open>Vocabulary of the properties\<close>


text \<open>
  A string is a canonical integer when \<open>ParseInt\<close> accepts it and \<open>FormatInt\<close> writes
  the parsed value back as the same string: \<open>5\<close> and \<open>-10\<close> are, \<open>+5\<close>, \<open>007\<close> and
  \<open>-0\<close> are not.
\<close>

definition canonicalInt :: "string \<Rightarrow> bool" where
  "canonicalInt v = (case ParseInt v of Inl e \<Rightarrow> False | Inr n \<Rightarrow> FormatInt n = v)"

text \<open>
  The criteria that flatten emits for a map, as a set: it does not depend on the
  iteration order. It is used in the proofs only.
\<close>

definition emitted :: "FindingCriteria \<Rightarrow> Criterion set" where
  "emitted m = {c. \<exists>r. m (field c) = Some r \<and> c \<in> set (flattenConditions (field c) r)}"

section \<open>Facts about the registry\<close>

lemma conditionIn_iff: "conditionIn available c \<longleftrightarrow> c \<in> set available"
  by (induction available) auto

lemma criteriaTable_shapes:
  "\<forall>(f, cs) \<in> set criteriaTable.
     cs = [''equals'', ''not_equals''] \<or>
     (f = ''updatedAt'' \<and> cs = [''equals'', ''not_equals'', ''greater_than'', ''greater_than_or_equal'',
           ''less_than'', ''less_than_or_equal''])"
  by (simp add: criteriaTable_def)

lemma distinct_criteriaFields: "distinct criteriaFields"
  by (simp add: criteriaFields_def criteriaTable_def)

lemma criteriaMap_updatedAt:
  "criteriaMap ''updatedAt'' =
     [''equals'', ''not_equals'', ''greater_than'', ''greater_than_or_equal'',
      ''less_than'', ''less_than_or_equal'']"
  by (simp add: criteriaMap_def criteriaTable_def)

lemma criteriaMap_unregistered: "f \<notin> set criteriaFields \<Longrightarrow> criteriaMap f = []"
  by (simp add: criteriaMap_def criteriaFields_def map_of_eq_None_iff [THEN iffD2])

lemma criteriaMap_registered:
  assumes "f \<in> set criteriaFields"
  shows "if f = ''updatedAt''
         then criteriaMap f = [''equals'', ''not_equals'', ''greater_than'', ''greater_than_or_equal'',
                ''less_than'', ''less_than_or_equal'']
         else criteriaMap f = [''equals'', ''not_equals'']"
proof (cases "f = ''updatedAt''")
  case True
  then show ?thesis by (simp add: criteriaMap_updatedAt)
next
  case False
  from assms have "map_of criteriaTable f \<noteq> None"
    by (simp add: criteriaFields_def map_of_eq_None_iff)
  then obtain cs where m: "map_of criteriaTable f = Some cs" by auto
  then have "(f, cs) \<in> set criteriaTable" by (rule map_of_SomeD)
  with criteriaTable_shapes False have "cs = [''equals'', ''not_equals'']" by blast
  with m False show ?thesis by (simp add: criteriaMap_def)
qed

lemma criteriaMap_nonempty_registered: "c \<in> set (criteriaMap f) \<Longrightarrow> f \<in> set criteriaFields"
  by (cases "f \<in> set criteriaFields") (simp_all add: criteriaMap_unregistered)

lemma allowed_condition_cases:
  assumes "conditionAllowedForCriterion c"
  shows "field c \<in> set criteriaFields"
    and "condition c = ''equals'' \<or> condition c = ''not_equals'' \<or>
         (field c = ''updatedAt'' \<and>
          (condition c = ''greater_than'' \<or> condition c = ''greater_than_or_equal'' \<or>
           condition c = ''less_than'' \<or> condition c = ''less_than_or_equal''))"
proof -
  from assms have mem: "condition c \<in> set (criteriaMap (field c))"
    by (simp add: conditionAllowedForCriterion_def conditionIn_iff)
  then show reg: "field c \<in> set criteriaFields" by (rule criteriaMap_nonempty_registered)
  from criteriaMap_registered [OF reg] mem
  show "condition c = ''equals'' \<or> condition c = ''not_equals'' \<or>
         (field c = ''updatedAt'' \<and>
          (condition c = ''greater_than'' \<or> condition c = ''greater_than_or_equal'' \<or>
           condition c = ''less_than'' \<or> condition c = ''less_than_or_equal''))"
    by (cases "field c = ''updatedAt''") auto
qed

section \<open>Facts about the serialize loop\<close>

lemma setOrdering_Inr:
  "setOrdering upd c m = Inr m' \<Longrightarrow>
     \<exists>v. vals c = [v] \<and> 
       (\<exists>n. ParseInt v = Inr n \<and>
          m' = m(field c \<mapsto> upd (\<lambda>_. Some n) (case m (field c) of None \<Rightarrow> newCondition | Some r \<Rightarrow> r)))"
  by (auto simp: setOrdering_def conditionValueToInt_def split: sum.splits list.splits option.splits)

text \<open>
  Every outcome of an ordering case, by the number of values: none panics, one is parsed,
  two or more are reported through the first.
\<close>

lemma setOrdering_outcome:
  "setOrdering upd c m =
     (case vals c of
        [] \<Rightarrow> Inl PanicIndexOutOfRange
      | [v] \<Rightarrow>
          (case ParseInt v of
             Inl e \<Rightarrow> Inl (ValueNotInteger v)
           | Inr n \<Rightarrow>
               Inr (m(field c \<mapsto>
                      upd (\<lambda>_. Some n)
                        (case m (field c) of None \<Rightarrow> newCondition | Some r \<Rightarrow> r))))
      | v # w # ws \<Rightarrow> Inl (ValueNotInteger v))"
  by (auto simp: setOrdering_def conditionValueToInt_def notAnInteger_def
      split: list.splits sum.splits option.splits)

lemma serializeCriterion_Inr:
  assumes "serializeCriterion c m = Inr m'"
  obtains
    (equals) "condition c = ''equals''"
      "m' = m(field c \<mapsto> newCondition\<lparr>Equals := vals c\<rparr>)"
  | (not_equals) "condition c = ''not_equals''"
      "m' = m(field c \<mapsto> newCondition\<lparr>NotEquals := vals c\<rparr>)"
  | (greater_than) "condition c = ''greater_than''"
      "setOrdering GreaterThan_update c m = Inr m'"
  | (greater_than_or_equal) "condition c = ''greater_than_or_equal''"
      "setOrdering GreaterThanOrEqual_update c m = Inr m'"
  | (less_than) "condition c = ''less_than''"
      "setOrdering LessThan_update c m = Inr m'"
  | (less_than_or_equal) "condition c = ''less_than_or_equal''"
      "setOrdering LessThanOrEqual_update c m = Inr m'"
proof -
  from assms have allowed: "conditionAllowedForCriterion c"
    by (auto simp: serializeCriterion_def split: if_splits)
  from allowed_condition_cases(2) [OF allowed]
  consider "condition c = ''equals''" | "condition c = ''not_equals''"
    | "condition c = ''greater_than''" | "condition c = ''greater_than_or_equal''"
    | "condition c = ''less_than''" | "condition c = ''less_than_or_equal''"
    by blast
  then show thesis
  proof cases
    case 1
    with assms allowed show thesis
      by (intro equals) (simp_all add: serializeCriterion_def conditionValueToStrings_def)
  next
    case 2
    with assms allowed show thesis
      by (intro not_equals) (simp_all add: serializeCriterion_def conditionValueToStrings_def)
  next
    case 3
    with assms allowed show thesis
      by (intro greater_than) (simp_all add: serializeCriterion_def)
  next
    case 4
    with assms allowed show thesis
      by (intro greater_than_or_equal) (simp_all add: serializeCriterion_def)
  next
    case 5
    with assms allowed show thesis
      by (intro less_than) (simp_all add: serializeCriterion_def)
  next
    case 6
    with assms allowed show thesis
      by (intro less_than_or_equal) (simp_all add: serializeCriterion_def)
  qed
qed

lemma setOrdering_dom:
  "setOrdering upd c m = Inr m' \<Longrightarrow> dom m' = insert (field c) (dom m)"
  by (drule setOrdering_Inr) auto

lemma serializeCriterion_dom:
  assumes "serializeCriterion c m = Inr m'"
  shows "dom m' = insert (field c) (dom m)"
  using assms by (cases rule: serializeCriterion_Inr) (simp_all add: setOrdering_dom)

lemma serializeLoop_dom:
  "serializeLoop cs m = Inr m' \<Longrightarrow> dom m' = dom m \<union> field ` set cs"
proof (induction cs arbitrary: m)
  case Nil
  then show ?case by simp
next
  case (Cons c cs)
  then obtain m1 where s: "serializeCriterion c m = Inr m1" and l: "serializeLoop cs m1 = Inr m'"
    by (auto split: sum.splits)
  from Cons.IH [OF l] serializeCriterion_dom [OF s] show ?case by auto
qed

lemma serializeLoop_append:
  "serializeLoop (xs @ ys) m =
     (case serializeLoop xs m of Inl e \<Rightarrow> Inl e | Inr m1 \<Rightarrow> serializeLoop ys m1)"
  by (induction xs arbitrary: m) (auto split: sum.splits)

lemma serializeLoop_fails:
  "c \<in> set cs \<Longrightarrow> \<not> conditionAllowedForCriterion c \<Longrightarrow> \<exists>e. serializeLoop cs m = Inl e"
proof (induction cs arbitrary: m)
  case Nil
  then show ?case by simp
next
  case (Cons a cs)
  show ?case
  proof (cases "serializeCriterion a m")
    case (Inl e)
    then show ?thesis by simp
  next
    case (Inr m1)
    then have "conditionAllowedForCriterion a"
      by (auto simp: serializeCriterion_def split: if_splits)
    with Cons.prems have "c \<in> set cs" by auto
    from Cons.IH [OF this Cons.prems(2)] Inr show ?thesis by simp
  qed
qed

section \<open>Facts about flatten\<close>

lemma flattenInt_set:
  "c \<in> set (flattenInt f name p) \<longleftrightarrow>
     (\<exists>v. p = Some v \<and> c = \<lparr>field = f, condition = name, vals = [FormatInt v]\<rparr>)"
  by (cases p) (auto simp: flattenInt_def flattenIntCondition_def)

lemma flattenConditions_set:
  "c \<in> set (flattenConditions f r) \<longleftrightarrow>
     (Equals r \<noteq> [] \<and> c = \<lparr>field = f, condition = ''equals'', vals = Equals r\<rparr>) \<or>
     (NotEquals r \<noteq> [] \<and> c = \<lparr>field = f, condition = ''not_equals'', vals = NotEquals r\<rparr>) \<or>
     (\<exists>v. GreaterThan r = Some v \<and>
          c = \<lparr>field = f, condition = ''greater_than'', vals = [FormatInt v]\<rparr>) \<or>
     (\<exists>v. GreaterThanOrEqual r = Some v \<and>
          c = \<lparr>field = f, condition = ''greater_than_or_equal'', vals = [FormatInt v]\<rparr>) \<or>
     (\<exists>v. LessThan r = Some v \<and>
          c = \<lparr>field = f, condition = ''less_than'', vals = [FormatInt v]\<rparr>) \<or>
     (\<exists>v. LessThanOrEqual r = Some v \<and>
          c = \<lparr>field = f, condition = ''less_than_or_equal'', vals = [FormatInt v]\<rparr>)"
  unfolding flattenConditions_def set_append Un_iff flattenInt_set
  by (auto simp: flattenStringCondition_def)

lemma flattenConditions_field: "c \<in> set (flattenConditions f r) \<Longrightarrow> field c = f"
  by (auto simp: flattenConditions_set)

lemma flatCriteria_set:
  "c \<in> set (flatCriteria order m) \<longleftrightarrow>
     field c \<in> set order \<and> (\<exists>r. m (field c) = Some r \<and> c \<in> set (flattenConditions (field c) r))"
proof
  assume "c \<in> set (flatCriteria order m)"
  then obtain f where o: "f \<in> set order"
      and "c \<in> set (case m f of None \<Rightarrow> [] | Some r \<Rightarrow> flattenConditions f r)"
    by (auto simp: flatCriteria_def)
  then obtain r where "m f = Some r" "c \<in> set (flattenConditions f r)"
    by (cases "m f") auto
  with o have f: "f \<in> set order" "m f = Some r" "c \<in> set (flattenConditions f r)"
    by simp_all
  from f(3) have "field c = f" by (rule flattenConditions_field)
  with f show "field c \<in> set order \<and>
      (\<exists>r. m (field c) = Some r \<and> c \<in> set (flattenConditions (field c) r))"
    by auto
next
  assume "field c \<in> set order \<and>
      (\<exists>r. m (field c) = Some r \<and> c \<in> set (flattenConditions (field c) r))"
  then show "c \<in> set (flatCriteria order m)"
    by (force simp: flatCriteria_def)
qed

lemma iterationOrder_single:
  assumes "iterationOrder order [f \<mapsto> r]"
  shows "order = [f]"
proof (cases order)
  case Nil
  with assms show ?thesis by (simp add: iterationOrder_def)
next
  case (Cons x xs)
  with assms have d: "x \<notin> set xs" and s: "insert x (set xs) = {f}"
    by (auto simp: iterationOrder_def)
  from s have "x = f" by auto
  with d s have "xs = []" by (cases xs) auto
  with Cons \<open>x = f\<close> show ?thesis by simp
qed

lemma flattenConditions_mem:
  assumes "c \<in> set (flattenConditions f r)"
  shows "field c = f \<and>
     ((condition c = ''equals'' \<and> Equals r \<noteq> [] \<and> vals c = Equals r) \<or>
      (condition c = ''not_equals'' \<and> NotEquals r \<noteq> [] \<and> vals c = NotEquals r) \<or>
      (condition c = ''greater_than'' \<and> (\<exists>v. GreaterThan r = Some v \<and> vals c = [FormatInt v])) \<or>
      (condition c = ''greater_than_or_equal'' \<and>
         (\<exists>v. GreaterThanOrEqual r = Some v \<and> vals c = [FormatInt v])) \<or>
      (condition c = ''less_than'' \<and> (\<exists>v. LessThan r = Some v \<and> vals c = [FormatInt v])) \<or>
      (condition c = ''less_than_or_equal'' \<and>
         (\<exists>v. LessThanOrEqual r = Some v \<and> vals c = [FormatInt v])))"
  using assms unfolding flattenConditions_set by (elim disjE conjE exE) simp_all




lemma set_flatCriteria:
  "iterationOrder order m \<Longrightarrow> set (flatCriteria order m) = emitted m"
  by (auto simp: flatCriteria_set emitted_def iterationOrder_def)

lemma emitted_other_field:
  "field x \<noteq> f \<Longrightarrow> x \<in> emitted (m(f \<mapsto> r)) \<longleftrightarrow> x \<in> emitted m"
  by (simp add: emitted_def)

lemma emitted_same_field:
  "field x = f \<Longrightarrow> x \<in> emitted (m(f \<mapsto> r)) \<longleftrightarrow> x \<in> set (flattenConditions f r)"
  by (simp add: emitted_def)

lemma flattenConditions_newCondition_Equals:
  "x \<in> set (flattenConditions f (newCondition\<lparr>Equals := vs\<rparr>)) \<longleftrightarrow>
     vs \<noteq> [] \<and> x = \<lparr>field = f, condition = ''equals'', vals = vs\<rparr>"
  by (simp add: flattenConditions_set newCondition_def)

lemma flattenConditions_newCondition_NotEquals:
  "x \<in> set (flattenConditions f (newCondition\<lparr>NotEquals := vs\<rparr>)) \<longleftrightarrow>
     vs \<noteq> [] \<and> x = \<lparr>field = f, condition = ''not_equals'', vals = vs\<rparr>"
  by (simp add: flattenConditions_set newCondition_def)

lemma flattenConditions_newCondition [simp]: "flattenConditions f newCondition = []"
  by (simp add: flattenConditions_def flattenInt_def newCondition_def)

lemma flattenConditions_GreaterThan:
  "x \<in> set (flattenConditions f (r\<lparr>GreaterThan := Some n\<rparr>)) \<longleftrightarrow>
     (x \<in> set (flattenConditions f r) \<and> condition x \<noteq> ''greater_than'') \<or>
     x = \<lparr>field = f, condition = ''greater_than'', vals = [FormatInt n]\<rparr>"
  unfolding flattenConditions_set
  by (rule iffI; elim disjE conjE exE; simp)

lemma flattenConditions_GreaterThanOrEqual:
  "x \<in> set (flattenConditions f (r\<lparr>GreaterThanOrEqual := Some n\<rparr>)) \<longleftrightarrow>
     (x \<in> set (flattenConditions f r) \<and> condition x \<noteq> ''greater_than_or_equal'') \<or>
     x = \<lparr>field = f, condition = ''greater_than_or_equal'', vals = [FormatInt n]\<rparr>"
  unfolding flattenConditions_set
  by (rule iffI; elim disjE conjE exE; simp)

lemma flattenConditions_LessThan:
  "x \<in> set (flattenConditions f (r\<lparr>LessThan := Some n\<rparr>)) \<longleftrightarrow>
     (x \<in> set (flattenConditions f r) \<and> condition x \<noteq> ''less_than'') \<or>
     x = \<lparr>field = f, condition = ''less_than'', vals = [FormatInt n]\<rparr>"
  unfolding flattenConditions_set
  by (rule iffI; elim disjE conjE exE; simp)

lemma flattenConditions_LessThanOrEqual:
  "x \<in> set (flattenConditions f (r\<lparr>LessThanOrEqual := Some n\<rparr>)) \<longleftrightarrow>
     (x \<in> set (flattenConditions f r) \<and> condition x \<noteq> ''less_than_or_equal'') \<or>
     x = \<lparr>field = f, condition = ''less_than_or_equal'', vals = [FormatInt n]\<rparr>"
  unfolding flattenConditions_set
  by (rule iffI; elim disjE conjE exE; simp)

text \<open>Storing a fresh record with one string set: the two cases that replace the record.\<close>

lemma emitted_replace:
  assumes inv: "emitted m1 = set pre"
    and dom: "dom m1 = field ` set pre"
    and fresh: "field c \<notin> field ` set pre"
    and nonempty: "vals c \<noteq> []"
    and fl: "\<And>x. x \<in> set (flattenConditions (field c) r) \<longleftrightarrow>
               vals c \<noteq> [] \<and> x = \<lparr>field = field c, condition = condition c, vals = vals c\<rparr>"
  shows "emitted (m1(field c \<mapsto> r)) = set (pre @ [c])"
proof (rule set_eqI)
  fix x
  have c: "\<lparr>field = field c, condition = condition c, vals = vals c\<rparr> = c"
    by (cases c) simp
  show "x \<in> emitted (m1(field c \<mapsto> r)) \<longleftrightarrow> x \<in> set (pre @ [c])"
  proof (cases "field x = field c")
    case True
    have n: "x \<notin> set pre"
    proof
      assume "x \<in> set pre"
      then have "field x \<in> field ` set pre" by (rule imageI)
      with True fresh show False by simp
    qed
    from True nonempty
    have "x \<in> emitted (m1(field c \<mapsto> r)) \<longleftrightarrow>
        x = \<lparr>field = field c, condition = condition c, vals = vals c\<rparr>"
      by (simp add: emitted_same_field fl)
    also have "\<dots> \<longleftrightarrow> x = c" by (simp only: c)
    also from n have "\<dots> \<longleftrightarrow> x \<in> set (pre @ [c])" by simp
    finally show ?thesis .
  next
    case False
    then have "x \<noteq> c" by auto
    with False inv show ?thesis
      by (simp add: emitted_other_field)
  qed
qed

text \<open>Assigning one ordering attribute of the record the field has, or of a new one.\<close>

lemma emitted_assign:
  assumes inv: "emitted m1 = set pre"
    and dom: "dom m1 = field ` set pre"
    and fresh: "(field c, condition c) \<notin> (\<lambda>c. (field c, condition c)) ` set pre"
    and v: "vals c = [FormatInt n]"
    and fl: "\<And>x r. x \<in> set (flattenConditions (field c) (upd (\<lambda>_. Some n) r)) \<longleftrightarrow>
               (x \<in> set (flattenConditions (field c) r) \<and> condition x \<noteq> condition c) \<or>
               x = \<lparr>field = field c, condition = condition c, vals = [FormatInt n]\<rparr>"
  shows "emitted (m1(field c \<mapsto>
            upd (\<lambda>_. Some n) (case m1 (field c) of None \<Rightarrow> newCondition | Some r \<Rightarrow> r))) =
         set (pre @ [c])"
proof (rule set_eqI)
  fix x
  let ?r = "case m1 (field c) of None \<Rightarrow> newCondition | Some r \<Rightarrow> r"
  have c: "\<lparr>field = field c, condition = condition c, vals = [FormatInt n]\<rparr> = c"
    using v by (cases c) simp
  show "x \<in> emitted (m1(field c \<mapsto> upd (\<lambda>_. Some n) ?r)) \<longleftrightarrow> x \<in> set (pre @ [c])"
  proof (cases "field x = field c")
    case True
    have old: "x \<in> set (flattenConditions (field c) ?r) \<longleftrightarrow> x \<in> set pre"
    proof (cases "m1 (field c)")
      case None
      then have nf: "field c \<notin> field ` set pre" using dom by auto
      have "x \<notin> set pre"
      proof
        assume "x \<in> set pre"
        then have "field x \<in> field ` set pre" by (rule imageI)
        with True nf show False by simp
      qed
      with None show ?thesis by simp
    next
      case (Some r)
      with True have "x \<in> emitted m1 \<longleftrightarrow> x \<in> set (flattenConditions (field c) r)"
        by (simp add: emitted_def)
      with inv Some show ?thesis by simp
    qed
    have "condition x \<noteq> condition c" if "x \<in> set pre"
    proof
      assume "condition x = condition c"
      with True have "(\<lambda>c. (field c, condition c)) x = (field c, condition c)" by simp
      moreover from that
      have "(\<lambda>c. (field c, condition c)) x \<in> (\<lambda>c. (field c, condition c)) ` set pre"
        by (rule imageI)
      ultimately show False using fresh by simp
    qed
    then have keep: "x \<in> set pre \<and> condition x \<noteq> condition c \<longleftrightarrow> x \<in> set pre"
      by blast
    from True
    have "x \<in> emitted (m1(field c \<mapsto> upd (\<lambda>_. Some n) ?r)) \<longleftrightarrow>
        (x \<in> set (flattenConditions (field c) ?r) \<and> condition x \<noteq> condition c) \<or>
        x = \<lparr>field = field c, condition = condition c, vals = [FormatInt n]\<rparr>"
      by (simp only: emitted_same_field fl)
    also have "\<dots> \<longleftrightarrow> x \<in> set pre \<or> x = c"
      by (simp only: c old keep)
    also have "\<dots> \<longleftrightarrow> x \<in> set (pre @ [c])" by auto
    finally show ?thesis .
  next
    case False
    then have "x \<noteq> c" by auto
    with False inv show ?thesis
      by (simp add: emitted_other_field)
  qed
qed

section \<open>The round trip through the loop\<close>

lemma setOrdering_canonical:
  assumes "setOrdering upd c m1 = Inr m" and "list_all canonicalInt (vals c)"
  obtains n where "vals c = [FormatInt n]"
    and "m = m1(field c \<mapsto>
           upd (\<lambda>_. Some n) (case m1 (field c) of None \<Rightarrow> newCondition | Some r \<Rightarrow> r))"
proof -
  from setOrdering_Inr [OF assms(1)] obtain v n where v: "vals c = [v]" "ParseInt v = Inr n"
    and m: "m = m1(field c \<mapsto>
           upd (\<lambda>_. Some n) (case m1 (field c) of None \<Rightarrow> newCondition | Some r \<Rightarrow> r))"
    by blast
  from assms(2) v have "FormatInt n = v" by (simp add: canonicalInt_def)
  with v have "vals c = [FormatInt n]" by simp
  from this m show thesis by (rule that)
qed

lemma round_trip_loop:
  assumes "serializeLoop cs Map.empty = Inr m"
    and "distinct (map (\<lambda>c. (field c, condition c)) cs)"
    and "\<forall>i < length cs. condition (cs ! i) \<in> {''equals'', ''not_equals''} \<longrightarrow>
           field (cs ! i) \<notin> field ` set (take i cs)"
    and "\<forall>c \<in> set cs. condition c \<in> {''equals'', ''not_equals''} \<longrightarrow> vals c \<noteq> []"
    and "\<forall>c \<in> set cs. condition c \<notin> {''equals'', ''not_equals''} \<longrightarrow>
           list_all canonicalInt (vals c)"
  shows "emitted m = set cs"
  using assms
proof (induction cs arbitrary: m rule: rev_induct)
  case Nil
  then have "m = Map.empty" by simp
  then show ?case by (simp add: emitted_def)
next
  case (snoc c pre)
  from snoc.prems(1) obtain m1 where l: "serializeLoop pre Map.empty = Inr m1"
    and s: "serializeCriterion c m1 = Inr m"
    by (auto simp: serializeLoop_append split: sum.splits)
  from snoc.prems(2) have d: "distinct (map (\<lambda>c. (field c, condition c)) pre)"
    and fresh: "(field c, condition c) \<notin> (\<lambda>c. (field c, condition c)) ` set pre"
    by simp_all
  have o: "\<forall>i < length pre. condition (pre ! i) \<in> {''equals'', ''not_equals''} \<longrightarrow>
      field (pre ! i) \<notin> field ` set (take i pre)"
  proof (intro allI impI)
    fix i
    assume i: "i < length pre" and e: "condition (pre ! i) \<in> {''equals'', ''not_equals''}"
    from i have "i < length (pre @ [c])" by simp
    with snoc.prems(3) e i show "field (pre ! i) \<notin> field ` set (take i pre)"
      by (fastforce simp: nth_append)
  qed
  have oc: "field c \<notin> field ` set pre" if "condition c \<in> {''equals'', ''not_equals''}"
    using snoc.prems(3) [rule_format, of "length pre"] that by simp
  from snoc.prems(4) have ne: "\<forall>c \<in> set pre. condition c \<in> {''equals'', ''not_equals''} \<longrightarrow> vals c \<noteq> []"
    and nec: "condition c \<in> {''equals'', ''not_equals''} \<Longrightarrow> vals c \<noteq> []"
    by auto
  from snoc.prems(5) have ca: "\<forall>c \<in> set pre. condition c \<notin> {''equals'', ''not_equals''} \<longrightarrow>
      list_all canonicalInt (vals c)"
    and cac: "condition c \<notin> {''equals'', ''not_equals''} \<Longrightarrow> list_all canonicalInt (vals c)"
    by auto
  from snoc.IH [OF l d o ne ca] have inv: "emitted m1 = set pre" .
  from serializeLoop_dom [OF l] have dom: "dom m1 = field ` set pre" by simp
  from s show ?case
  proof (cases rule: serializeCriterion_Inr)
    case equals
    have f: "field c \<notin> field ` set pre" by (rule oc) (simp add: equals(1))
    have n: "vals c \<noteq> []" by (rule nec) (simp add: equals(1))
    show ?thesis
      unfolding equals(2)
      by (rule emitted_replace [OF inv dom f n])
        (simp add: equals(1) flattenConditions_newCondition_Equals)
  next
    case not_equals
    have f: "field c \<notin> field ` set pre" by (rule oc) (simp add: not_equals(1))
    have n: "vals c \<noteq> []" by (rule nec) (simp add: not_equals(1))
    show ?thesis
      unfolding not_equals(2)
      by (rule emitted_replace [OF inv dom f n])
        (simp add: not_equals(1) flattenConditions_newCondition_NotEquals)
  next
    case greater_than
    from greater_than(1) have "list_all canonicalInt (vals c)" by (intro cac) simp
    with greater_than(2) obtain n where n: "vals c = [FormatInt n]"
      and m: "m = m1(field c \<mapsto> GreaterThan_update (\<lambda>_. Some n)
                (case m1 (field c) of None \<Rightarrow> newCondition | Some r \<Rightarrow> r))"
      by (rule setOrdering_canonical)
    show ?thesis
      unfolding m
      by (rule emitted_assign [OF inv dom fresh n])
        (simp add: greater_than(1) flattenConditions_GreaterThan)
  next
    case greater_than_or_equal
    from greater_than_or_equal(1) have "list_all canonicalInt (vals c)" by (intro cac) simp
    with greater_than_or_equal(2) obtain n where n: "vals c = [FormatInt n]"
      and m: "m = m1(field c \<mapsto> GreaterThanOrEqual_update (\<lambda>_. Some n)
                (case m1 (field c) of None \<Rightarrow> newCondition | Some r \<Rightarrow> r))"
      by (rule setOrdering_canonical)
    show ?thesis
      unfolding m
      by (rule emitted_assign [OF inv dom fresh n])
        (simp add: greater_than_or_equal(1) flattenConditions_GreaterThanOrEqual)
  next
    case less_than
    from less_than(1) have "list_all canonicalInt (vals c)" by (intro cac) simp
    with less_than(2) obtain n where n: "vals c = [FormatInt n]"
      and m: "m = m1(field c \<mapsto> LessThan_update (\<lambda>_. Some n)
                (case m1 (field c) of None \<Rightarrow> newCondition | Some r \<Rightarrow> r))"
      by (rule setOrdering_canonical)
    show ?thesis
      unfolding m
      by (rule emitted_assign [OF inv dom fresh n])
        (simp add: less_than(1) flattenConditions_LessThan)
  next
    case less_than_or_equal
    from less_than_or_equal(1) have "list_all canonicalInt (vals c)" by (intro cac) simp
    with less_than_or_equal(2) obtain n where n: "vals c = [FormatInt n]"
      and m: "m = m1(field c \<mapsto> LessThanOrEqual_update (\<lambda>_. Some n)
                (case m1 (field c) of None \<Rightarrow> newCondition | Some r \<Rightarrow> r))"
      by (rule setOrdering_canonical)
    show ?thesis
      unfolding m
      by (rule emitted_assign [OF inv dom fresh n])
        (simp add: less_than_or_equal(1) flattenConditions_LessThanOrEqual)
  qed
qed

section \<open>The value flatten returns\<close>

lemma flattenFindingCriteria_flat:
  "flattenFindingCriteria order m = [[''criterion'' \<mapsto> set (flatCriteria order m)]]"
  by (simp add: flattenFindingCriteria_def NewSet_def)


section \<open>Evaluation on concrete inputs\<close>

lemmas serialize_eval =
  serializeFindingCriteria_def serializeCriterion_def setOrdering_def conditionValueToInt_def
  conditionValueToStrings_def conditionAllowedForCriterion_def notAnInteger_def newCondition_def
  parseSigned_def ParseUint_def isDigit_def criteriaMap_def criteriaTable_def

lemmas flatten_eval =
  flatCriteria_def flattenConditions_def flattenInt_def flattenIntCondition_def
  flattenStringCondition_def FormatInt_def formatBits.simps digits_def

section \<open>Claims\<close>

text \<open>
  C7. Whenever \<open>serializeFindingCriteria\<close> returns a result, the keys of the returned
  map are exactly the field names of the input criteria: every criterion's field is a
  key, and no other key is present.
\<close>

theorem serialize_domain_is_referenced_fields:
  "serializeFindingCriteria cs = Inr m \<Longrightarrow> dom m = field ` set cs"
  using serializeLoop_dom [of cs Map.empty m] by (simp add: serializeFindingCriteria_def)

theorem serialize_domain_is_referenced_fields_witness:
  "serializeFindingCriteria
     [\<lparr>field = ''id'', condition = ''equals'', vals = [''a'']\<rparr>,
      \<lparr>field = ''updatedAt'', condition = ''less_than'', vals = [''7'']\<rparr>] =
   Inr [''id'' \<mapsto> \<lparr>Equals = [''a''], NotEquals = [], GreaterThan = None,
                        GreaterThanOrEqual = None, LessThan = None, LessThanOrEqual = None\<rparr>,
        ''updatedAt'' \<mapsto> \<lparr>Equals = [], NotEquals = [], GreaterThan = None,
                        GreaterThanOrEqual = None, LessThan = Some 7, LessThanOrEqual = None\<rparr>]
   \<and> dom [''id'' \<mapsto> \<lparr>Equals = [''a''], NotEquals = [], GreaterThan = None,
                        GreaterThanOrEqual = None, LessThan = None, LessThanOrEqual = None\<rparr>,
        ''updatedAt'' \<mapsto> \<lparr>Equals = [], NotEquals = [], GreaterThan = None,
                        GreaterThanOrEqual = None, LessThan = Some 7, LessThanOrEqual = None\<rparr>]
     = {''id'', ''updatedAt''}"
proof -
  have s: "serializeFindingCriteria
     [\<lparr>field = ''id'', condition = ''equals'', vals = [''a'']\<rparr>,
      \<lparr>field = ''updatedAt'', condition = ''less_than'', vals = [''7'']\<rparr>] =
   Inr [''id'' \<mapsto> \<lparr>Equals = [''a''], NotEquals = [], GreaterThan = None,
                        GreaterThanOrEqual = None, LessThan = None, LessThanOrEqual = None\<rparr>,
        ''updatedAt'' \<mapsto> \<lparr>Equals = [], NotEquals = [], GreaterThan = None,
                        GreaterThanOrEqual = None, LessThan = Some 7, LessThanOrEqual = None\<rparr>]"
    by (simp add: serialize_eval)
  from serialize_domain_is_referenced_fields [OF s] s show ?thesis by simp
qed

text \<open>
  C8. In the registry, \<open>updatedAt\<close> has all six conditions, every other registered
  field has exactly \<open>equals\<close> and \<open>not_equals\<close>, and no field name is listed twice.
  The registry is the value of a function without arguments, so it is the same table at
  every call.
\<close>

theorem registry_conditions:
  "criteriaMap ''updatedAt'' =
     [''equals'', ''not_equals'', ''greater_than'', ''greater_than_or_equal'',
      ''less_than'', ''less_than_or_equal''] \<and>
   ''updatedAt'' \<in> set criteriaFields \<and>
   (\<forall>f \<in> set criteriaFields. f \<noteq> ''updatedAt'' \<longrightarrow> criteriaMap f = [''equals'', ''not_equals'']) \<and>
   distinct criteriaFields"
proof -
  have "''updatedAt'' \<in> set criteriaFields"
    by (simp add: criteriaFields_def criteriaTable_def)
  moreover have "\<forall>f \<in> set criteriaFields. f \<noteq> ''updatedAt'' \<longrightarrow> criteriaMap f = [''equals'', ''not_equals'']"
    using criteriaMap_registered by auto
  ultimately show ?thesis
    using criteriaMap_updatedAt distinct_criteriaFields by blast
qed

theorem registry_conditions_witness:
  "''severity'' \<in> set criteriaFields \<and> ''severity'' \<noteq> ''updatedAt'' \<and>
   criteriaMap ''severity'' = [''equals'', ''not_equals'']"
proof -
  have h: "''severity'' \<in> set criteriaFields"
    by (simp add: criteriaFields_def criteriaTable_def)
  with registry_conditions show ?thesis by simp
qed

text \<open>
  C10. For a field name that the registry does not list, the lookup of the allowed
  conditions is empty; a criterion naming it is rejected with the unsupported-condition
  error, which reports the empty list, whatever its condition and values and whatever
  the loop has built so far; and no result of \<open>serializeFindingCriteria\<close> has a record
  for such a field.
\<close>

theorem unknown_field_rejected:
  assumes "f \<notin> set criteriaFields"
  shows "criteriaMap f = [] \<and>
         (\<forall>cond vs m. serializeCriterion \<lparr>field = f, condition = cond, vals = vs\<rparr> m =
                         Inl (UnsupportedCondition [])) \<and>
         (\<forall>cond vs. serializeFindingCriteria [\<lparr>field = f, condition = cond, vals = vs\<rparr>] =
                         Inl (UnsupportedCondition [])) \<and>
         (\<forall>cs m. serializeFindingCriteria cs = Inr m \<longrightarrow> m f = None)"
proof -
  have e: "criteriaMap f = []" using assms by (rule criteriaMap_unregistered)
  then have step: "serializeCriterion \<lparr>field = f, condition = cond, vals = vs\<rparr> m =
      Inl (UnsupportedCondition [])" for cond vs m
    by (simp add: serializeCriterion_def conditionAllowedForCriterion_def)
  have "m f = None" if "serializeFindingCriteria cs = Inr m" for cs m
  proof -
    from that have d: "dom m = field ` set cs"
      using serializeLoop_dom [of cs Map.empty m] by (simp add: serializeFindingCriteria_def)
    have "f \<notin> field ` set cs"
    proof
      assume "f \<in> field ` set cs"
      then obtain c where c: "c \<in> set cs" "field c = f" by auto
      have "\<not> conditionAllowedForCriterion c"
        using e c(2) by (simp add: conditionAllowedForCriterion_def)
      from serializeLoop_fails [OF c(1) this, of Map.empty] that show False
        by (simp add: serializeFindingCriteria_def)
    qed
    with d show ?thesis by auto
  qed
  with e step show ?thesis by (simp add: serializeFindingCriteria_def)
qed

theorem unknown_field_rejected_witness:
  "''title'' \<notin> set criteriaFields \<and> criteriaMap ''title'' = [] \<and>
   serializeFindingCriteria [\<lparr>field = ''title'', condition = ''equals'', vals = [''x'']\<rparr>] =
     Inl (UnsupportedCondition [])"
proof -
  have h: "''title'' \<notin> set criteriaFields"
    by (simp add: criteriaFields_def criteriaTable_def)
  from unknown_field_rejected [OF h] h show ?thesis by blast
qed

text \<open>
  C3. A criterion whose condition the registry does not allow for its field makes
  \<open>serializeFindingCriteria\<close> fail, but the loop returns at the first criterion it
  rejects: in the list below the first criterion is rejected for its value, so the error
  is not the unsupported-condition error of the second.
\<close>

theorem unsupported_condition_order_counterexample:
  "''greater_than'' \<notin> set (criteriaMap ''id'') \<and>
   serializeFindingCriteria
     [\<lparr>field = ''updatedAt'', condition = ''greater_than'', vals = [''abc'']\<rparr>,
      \<lparr>field = ''id'', condition = ''greater_than'', vals = [''1'']\<rparr>] =
     Inl (ValueNotInteger ''abc'') \<and>
   serializeFindingCriteria
     [\<lparr>field = ''updatedAt'', condition = ''greater_than'', vals = [''abc'']\<rparr>,
      \<lparr>field = ''id'', condition = ''greater_than'', vals = [''1'']\<rparr>] \<noteq>
     Inl (UnsupportedCondition (criteriaMap ''id''))"
  by (simp add: serialize_eval)

text \<open>
  C3, as amended. If the condition of a criterion is not in the registry's list for its
  field, then \<open>serializeFindingCriteria\<close> returns no result on any list that contains
  the criterion; and when the criteria before it are accepted (in particular when it is
  the first or the only one), the failure is the unsupported-condition error carrying the
  registry's list of conditions for its field.
\<close>

theorem unsupported_condition_rejected:
  assumes "condition c \<notin> set (criteriaMap (field c))"
  shows "(c \<in> set cs \<longrightarrow> (\<exists>e. serializeFindingCriteria cs = Inl e)) \<and>
         (\<forall>pre post m. serializeFindingCriteria pre = Inr m \<longrightarrow>
            serializeFindingCriteria (pre @ c # post) =
              Inl (UnsupportedCondition (criteriaMap (field c))))"
proof -
  from assms have n: "\<not> conditionAllowedForCriterion c"
    by (simp add: conditionAllowedForCriterion_def conditionIn_iff)
  then have step: "serializeCriterion c m = Inl (UnsupportedCondition (criteriaMap (field c)))" for m
    by (simp add: serializeCriterion_def)
  have "c \<in> set cs \<longrightarrow> (\<exists>e. serializeFindingCriteria cs = Inl e)"
    using serializeLoop_fails [OF _ n, of cs Map.empty] by (simp add: serializeFindingCriteria_def)
  moreover have "serializeFindingCriteria (pre @ c # post) =
              Inl (UnsupportedCondition (criteriaMap (field c)))"
    if "serializeFindingCriteria pre = Inr m" for pre post m
    using that step by (simp add: serializeFindingCriteria_def serializeLoop_append)
  ultimately show ?thesis by blast
qed

theorem unsupported_condition_rejected_witness:
  "''less_than'' \<notin> set (criteriaMap ''severity'') \<and>
   serializeFindingCriteria
     [\<lparr>field = ''id'', condition = ''equals'', vals = [''x'']\<rparr>] =
     Inr [''id'' \<mapsto> \<lparr>Equals = [''x''], NotEquals = [], GreaterThan = None,
                       GreaterThanOrEqual = None, LessThan = None, LessThanOrEqual = None\<rparr>] \<and>
   serializeFindingCriteria
     ([\<lparr>field = ''id'', condition = ''equals'', vals = [''x'']\<rparr>] @
      \<lparr>field = ''severity'', condition = ''less_than'', vals = [''4'']\<rparr> # []) =
     Inl (UnsupportedCondition [''equals'', ''not_equals''])"
proof -
  have h: "condition \<lparr>field = ''severity'', condition = ''less_than'', vals = [''4'']\<rparr> \<notin>
      set (criteriaMap (field \<lparr>field = ''severity'', condition = ''less_than'', vals = [''4'']\<rparr>))"
    by (simp add: criteriaMap_def criteriaTable_def)
  have p: "serializeFindingCriteria
     [\<lparr>field = ''id'', condition = ''equals'', vals = [''x'']\<rparr>] =
     Inr [''id'' \<mapsto> \<lparr>Equals = [''x''], NotEquals = [], GreaterThan = None,
                       GreaterThanOrEqual = None, LessThan = None, LessThanOrEqual = None\<rparr>]"
    by (simp add: serialize_eval)
  have c: "criteriaMap ''severity'' = [''equals'', ''not_equals'']"
    by (simp add: criteriaMap_def criteriaTable_def)
  from unsupported_condition_rejected [OF h, of "[]"] p h c show ?thesis
    by (simp del: append.simps)
qed

text \<open>
  C4. An ordering criterion on \<open>updatedAt\<close> with no value: \<open>conditionValueToInt\<close>
  reports that exactly one value must be given, but \<open>serializeFindingCriteria\<close> then
  builds its own message from \<open>values[0]\<close> and panics instead of returning a
  validation error.
\<close>

theorem ordering_without_value_panics:
  "conditionValueToInt [] = Inl (ExactlyOneValue []) \<and>
   serializeFindingCriteria
     [\<lparr>field = ''updatedAt'', condition = ''greater_than'', vals = []\<rparr>] =
     Inl PanicIndexOutOfRange \<and>
   serializeFindingCriteria
     [\<lparr>field = ''updatedAt'', condition = ''greater_than_or_equal'', vals = []\<rparr>] =
     Inl PanicIndexOutOfRange \<and>
   serializeFindingCriteria
     [\<lparr>field = ''updatedAt'', condition = ''less_than'', vals = []\<rparr>] =
     Inl PanicIndexOutOfRange \<and>
   serializeFindingCriteria
     [\<lparr>field = ''updatedAt'', condition = ''less_than_or_equal'', vals = []\<rparr>] =
     Inl PanicIndexOutOfRange"
  by (simp add: serialize_eval)

text \<open>
  C2. The cases \<open>equals\<close> and \<open>not_equals\<close> store a new record under the field, so
  whatever an earlier criterion had set for the field is lost: \<open>not_equals\<close> after
  \<open>equals\<close> leaves only \<open>NotEquals\<close>, and \<open>equals\<close> after \<open>greater_than\<close> leaves
  only \<open>Equals\<close>, while the same two criteria in the other order keep both.
\<close>

theorem equals_replaces_record:
  "serializeFindingCriteria
     [\<lparr>field = ''id'', condition = ''equals'', vals = [''a'']\<rparr>,
      \<lparr>field = ''id'', condition = ''not_equals'', vals = [''b'']\<rparr>] =
     Inr [''id'' \<mapsto> \<lparr>Equals = [], NotEquals = [''b''], GreaterThan = None,
                       GreaterThanOrEqual = None, LessThan = None, LessThanOrEqual = None\<rparr>] \<and>
   serializeFindingCriteria
     [\<lparr>field = ''updatedAt'', condition = ''greater_than'', vals = [''5'']\<rparr>,
      \<lparr>field = ''updatedAt'', condition = ''equals'', vals = [''9'']\<rparr>] =
     Inr [''updatedAt'' \<mapsto> \<lparr>Equals = [''9''], NotEquals = [], GreaterThan = None,
                       GreaterThanOrEqual = None, LessThan = None, LessThanOrEqual = None\<rparr>] \<and>
   serializeFindingCriteria
     [\<lparr>field = ''updatedAt'', condition = ''equals'', vals = [''9'']\<rparr>,
      \<lparr>field = ''updatedAt'', condition = ''greater_than'', vals = [''5'']\<rparr>] =
     Inr [''updatedAt'' \<mapsto> \<lparr>Equals = [''9''], NotEquals = [], GreaterThan = Some 5,
                       GreaterThanOrEqual = None, LessThan = None, LessThanOrEqual = None\<rparr>]"
  by (simp add: serialize_eval)

text \<open>
  C5. For a field whose registry entry allows \<open>greater_than\<close> and \<open>less_than\<close>,
  serializing \<open>greater_than ["5"]\<close> creates the record of the field, serializing
  \<open>less_than ["10"]\<close> after it sets the second bound on the same record, and
  flatten of the result, in any iteration order, builds exactly the two criteria
  \<open>greater_than ["5"]\<close> and \<open>less_than ["10"]\<close> of that field and returns the set of
  these two.
\<close>

theorem ordering_bounds_combine:
  assumes "''greater_than'' \<in> set (criteriaMap f)" and "''less_than'' \<in> set (criteriaMap f)"
  shows "serializeFindingCriteria
           [\<lparr>field = f, condition = ''greater_than'', vals = [''5'']\<rparr>] =
           Inr [f \<mapsto> \<lparr>Equals = [], NotEquals = [], GreaterThan = Some 5,
                       GreaterThanOrEqual = None, LessThan = None, LessThanOrEqual = None\<rparr>] \<and>
         serializeFindingCriteria
           [\<lparr>field = f, condition = ''greater_than'', vals = [''5'']\<rparr>,
            \<lparr>field = f, condition = ''less_than'', vals = [''10'']\<rparr>] =
           Inr [f \<mapsto> \<lparr>Equals = [], NotEquals = [], GreaterThan = Some 5,
                       GreaterThanOrEqual = None, LessThan = Some 10, LessThanOrEqual = None\<rparr>] \<and>
         (\<forall>order.
            iterationOrder order
              [f \<mapsto> \<lparr>Equals = [], NotEquals = [], GreaterThan = Some 5,
                       GreaterThanOrEqual = None, LessThan = Some 10, LessThanOrEqual = None\<rparr>] \<longrightarrow>
            flatCriteria order
              [f \<mapsto> \<lparr>Equals = [], NotEquals = [], GreaterThan = Some 5,
                       GreaterThanOrEqual = None, LessThan = Some 10, LessThanOrEqual = None\<rparr>] =
              [\<lparr>field = f, condition = ''greater_than'', vals = [''5'']\<rparr>,
               \<lparr>field = f, condition = ''less_than'', vals = [''10'']\<rparr>] \<and>
            flattenFindingCriteria order
              [f \<mapsto> \<lparr>Equals = [], NotEquals = [], GreaterThan = Some 5,
                       GreaterThanOrEqual = None, LessThan = Some 10, LessThanOrEqual = None\<rparr>] =
              [[''criterion'' \<mapsto>
                 {\<lparr>field = f, condition = ''greater_than'', vals = [''5'']\<rparr>,
                  \<lparr>field = f, condition = ''less_than'', vals = [''10'']\<rparr>}]])"
proof -
  have p5: "ParseInt ''5'' = Inr 5" and p10: "ParseInt ''10'' = Inr 10"
    by (simp_all add: parseSigned_def ParseUint_def isDigit_def)
  have f5: "FormatInt 5 = ''5''" and f10: "FormatInt 10 = ''10''"
    by (simp_all add: FormatInt_def formatBits.simps digits_def)
  from assms have a:
    "conditionAllowedForCriterion \<lparr>field = f, condition = ''greater_than'', vals = [''5'']\<rparr>"
    "conditionAllowedForCriterion \<lparr>field = f, condition = ''less_than'', vals = [''10'']\<rparr>"
    by (simp_all add: conditionAllowedForCriterion_def conditionIn_iff)
  have s1: "serializeFindingCriteria
           [\<lparr>field = f, condition = ''greater_than'', vals = [''5'']\<rparr>] =
           Inr [f \<mapsto> \<lparr>Equals = [], NotEquals = [], GreaterThan = Some 5,
                       GreaterThanOrEqual = None, LessThan = None, LessThanOrEqual = None\<rparr>]"
    using a p5
    by (simp add: serializeFindingCriteria_def serializeCriterion_def setOrdering_def
        conditionValueToInt_def newCondition_def)
  have s2: "serializeFindingCriteria
           [\<lparr>field = f, condition = ''greater_than'', vals = [''5'']\<rparr>,
            \<lparr>field = f, condition = ''less_than'', vals = [''10'']\<rparr>] =
           Inr [f \<mapsto> \<lparr>Equals = [], NotEquals = [], GreaterThan = Some 5,
                       GreaterThanOrEqual = None, LessThan = Some 10, LessThanOrEqual = None\<rparr>]"
    using a p5 p10
    by (simp add: serializeFindingCriteria_def serializeCriterion_def setOrdering_def
        conditionValueToInt_def newCondition_def)
  have fl: "flatCriteria [f]
              [f \<mapsto> \<lparr>Equals = [], NotEquals = [], GreaterThan = Some 5,
                       GreaterThanOrEqual = None, LessThan = Some 10, LessThanOrEqual = None\<rparr>] =
              [\<lparr>field = f, condition = ''greater_than'', vals = [''5'']\<rparr>,
               \<lparr>field = f, condition = ''less_than'', vals = [''10'']\<rparr>]"
    using f5 f10
    by (simp add: flatCriteria_def flattenConditions_def flattenInt_def
        flattenIntCondition_def)
  have fs: "flattenFindingCriteria [f]
              [f \<mapsto> \<lparr>Equals = [], NotEquals = [], GreaterThan = Some 5,
                       GreaterThanOrEqual = None, LessThan = Some 10, LessThanOrEqual = None\<rparr>] =
              [[''criterion'' \<mapsto>
                 {\<lparr>field = f, condition = ''greater_than'', vals = [''5'']\<rparr>,
                  \<lparr>field = f, condition = ''less_than'', vals = [''10'']\<rparr>}]]"
    by (simp add: flattenFindingCriteria_flat fl)
  from s1 s2 fl fs show ?thesis
    by (auto dest!: iterationOrder_single)
qed

theorem ordering_bounds_combine_witness:
  "''greater_than'' \<in> set (criteriaMap ''updatedAt'') \<and>
   ''less_than'' \<in> set (criteriaMap ''updatedAt'') \<and>
   iterationOrder [''updatedAt'']
     [''updatedAt'' \<mapsto> \<lparr>Equals = [], NotEquals = [], GreaterThan = Some 5,
                       GreaterThanOrEqual = None, LessThan = Some 10, LessThanOrEqual = None\<rparr>] \<and>
   flatCriteria [''updatedAt'']
     [''updatedAt'' \<mapsto> \<lparr>Equals = [], NotEquals = [], GreaterThan = Some 5,
                       GreaterThanOrEqual = None, LessThan = Some 10, LessThanOrEqual = None\<rparr>] =
     [\<lparr>field = ''updatedAt'', condition = ''greater_than'', vals = [''5'']\<rparr>,
      \<lparr>field = ''updatedAt'', condition = ''less_than'', vals = [''10'']\<rparr>] \<and>
   flattenFindingCriteria [''updatedAt'']
     [''updatedAt'' \<mapsto> \<lparr>Equals = [], NotEquals = [], GreaterThan = Some 5,
                       GreaterThanOrEqual = None, LessThan = Some 10, LessThanOrEqual = None\<rparr>] =
     [[''criterion'' \<mapsto>
        {\<lparr>field = ''updatedAt'', condition = ''greater_than'', vals = [''5'']\<rparr>,
         \<lparr>field = ''updatedAt'', condition = ''less_than'', vals = [''10'']\<rparr>}]]"
proof -
  have g: "''greater_than'' \<in> set (criteriaMap ''updatedAt'')"
    and l: "''less_than'' \<in> set (criteriaMap ''updatedAt'')"
    by (simp_all add: criteriaMap_updatedAt)
  have i: "iterationOrder [''updatedAt'']
     [''updatedAt'' \<mapsto> \<lparr>Equals = [], NotEquals = [], GreaterThan = Some 5,
                       GreaterThanOrEqual = None, LessThan = Some 10, LessThanOrEqual = None\<rparr>]"
    by (simp add: iterationOrder_def)
  from ordering_bounds_combine [OF g l] g l i show ?thesis by blast
qed

text \<open>
  C9. Every \<open>equals\<close> criterion that flatten emits, in the slice it builds and in the
  set it returns, comes from a record whose \<open>Equals\<close> attribute is not empty, and
  likewise for \<open>not_equals\<close>. So for a field that allows \<open>equals\<close>, the criterion
  \<open>equals\<close> with an empty list of values is accepted by \<open>serializeFindingCriteria\<close>,
  which stores a record with no attribute set, and flatten of that result emits nothing:
  the slice is empty and the returned set is empty.
\<close>

theorem empty_equals_not_flattened:
  "(\<forall>c \<in> set (flatCriteria order m). condition c = ''equals'' \<longrightarrow>
      (\<exists>r. m (field c) = Some r \<and> Equals r \<noteq> [] \<and> vals c = Equals r)) \<and>
   (\<forall>c \<in> set (flatCriteria order m). condition c = ''not_equals'' \<longrightarrow>
      (\<exists>r. m (field c) = Some r \<and> NotEquals r \<noteq> [] \<and> vals c = NotEquals r)) \<and>
   (\<exists>S. flattenFindingCriteria order m = [[''criterion'' \<mapsto> S]] \<and>
      (\<forall>c \<in> S. condition c = ''equals'' \<longrightarrow>
         (\<exists>r. m (field c) = Some r \<and> Equals r \<noteq> [] \<and> vals c = Equals r)) \<and>
      (\<forall>c \<in> S. condition c = ''not_equals'' \<longrightarrow>
         (\<exists>r. m (field c) = Some r \<and> NotEquals r \<noteq> [] \<and> vals c = NotEquals r))) \<and>
   (''equals'' \<in> set (criteriaMap f) \<longrightarrow>
      serializeFindingCriteria [\<lparr>field = f, condition = ''equals'', vals = []\<rparr>] =
        Inr [f \<mapsto> newCondition] \<and>
      (\<forall>order'. flatCriteria order' [f \<mapsto> newCondition] = [] \<and>
         flattenFindingCriteria order' [f \<mapsto> newCondition] = [[''criterion'' \<mapsto> {}]]))"
proof -
  have e: "\<exists>r. m (field c) = Some r \<and> Equals r \<noteq> [] \<and> vals c = Equals r"
    if "c \<in> set (flatCriteria order m)" "condition c = ''equals''" for c
  proof -
    from that(1) obtain r where r: "m (field c) = Some r" "c \<in> set (flattenConditions (field c) r)"
      by (auto simp: flatCriteria_set)
    from flattenConditions_mem [OF r(2)] that(2) r(1) show ?thesis by simp
  qed
  have n: "\<exists>r. m (field c) = Some r \<and> NotEquals r \<noteq> [] \<and> vals c = NotEquals r"
    if "c \<in> set (flatCriteria order m)" "condition c = ''not_equals''" for c
  proof -
    from that(1) obtain r where r: "m (field c) = Some r" "c \<in> set (flattenConditions (field c) r)"
      by (auto simp: flatCriteria_set)
    from flattenConditions_mem [OF r(2)] that(2) r(1) show ?thesis by simp
  qed
  have s: "\<exists>S. flattenFindingCriteria order m = [[''criterion'' \<mapsto> S]] \<and>
      (\<forall>c \<in> S. condition c = ''equals'' \<longrightarrow>
         (\<exists>r. m (field c) = Some r \<and> Equals r \<noteq> [] \<and> vals c = Equals r)) \<and>
      (\<forall>c \<in> S. condition c = ''not_equals'' \<longrightarrow>
         (\<exists>r. m (field c) = Some r \<and> NotEquals r \<noteq> [] \<and> vals c = NotEquals r))"
    using e n flattenFindingCriteria_flat [of order m] by blast
  have a: "serializeFindingCriteria [\<lparr>field = f, condition = ''equals'', vals = []\<rparr>] =
        Inr [f \<mapsto> newCondition]" if "''equals'' \<in> set (criteriaMap f)"
    using that
    by (simp add: serializeFindingCriteria_def serializeCriterion_def conditionValueToStrings_def
        conditionAllowedForCriterion_def conditionIn_iff newCondition_def)
  have l: "flatCriteria order' [f \<mapsto> newCondition] = []" for order'
    by (induction order')
      (simp_all add: flatCriteria_def flattenConditions_def flattenInt_def newCondition_def)
  then have r: "flattenFindingCriteria order' [f \<mapsto> newCondition] = [[''criterion'' \<mapsto> {}]]"
    for order'
    by (simp add: flattenFindingCriteria_flat)
  from e n s a l r show ?thesis by blast
qed

theorem empty_equals_not_flattened_witness:
  "''equals'' \<in> set (criteriaMap ''region'') \<and>
   serializeFindingCriteria [\<lparr>field = ''region'', condition = ''equals'', vals = []\<rparr>] =
     Inr [''region'' \<mapsto> newCondition] \<and>
   flatCriteria [''region''] [''region'' \<mapsto> newCondition] = [] \<and>
   flattenFindingCriteria [''region''] [''region'' \<mapsto> newCondition] = [[''criterion'' \<mapsto> {}]] \<and>
   \<lparr>field = ''id'', condition = ''equals'', vals = [''a'']\<rparr> \<in>
     set (flatCriteria [''id''] [''id'' \<mapsto> newCondition\<lparr>Equals := [''a'']\<rparr>]) \<and>
   (\<exists>r. [''id'' \<mapsto> newCondition\<lparr>Equals := [''a'']\<rparr>] ''id'' = Some r \<and> Equals r \<noteq> [] \<and>
        [''a''] = Equals r)"
proof -
  have h: "''equals'' \<in> set (criteriaMap ''region'')"
    by (simp add: criteriaMap_def criteriaTable_def)
  have i: "\<lparr>field = ''id'', condition = ''equals'', vals = [''a'']\<rparr> \<in>
     set (flatCriteria [''id''] [''id'' \<mapsto> newCondition\<lparr>Equals := [''a'']\<rparr>])"
    by (simp add: flatCriteria_def flattenConditions_def flattenInt_def
        flattenStringCondition_def newCondition_def)
  note t = empty_equals_not_flattened
    [of "[''id'']" "[''id'' \<mapsto> newCondition\<lparr>Equals := [''a'']\<rparr>]" "''region''"]
  from t have "\<forall>c \<in> set (flatCriteria [''id'']
        [''id'' \<mapsto> newCondition\<lparr>Equals := [''a'']\<rparr>]).
      condition c = ''equals'' \<longrightarrow>
      (\<exists>r. [''id'' \<mapsto> newCondition\<lparr>Equals := [''a'']\<rparr>] (field c) = Some r \<and>
           Equals r \<noteq> [] \<and> vals c = Equals r)"
    by (rule conjunct1)
  from bspec [OF this i]
  have e: "\<exists>r. [''id'' \<mapsto> newCondition\<lparr>Equals := [''a'']\<rparr>] ''id'' = Some r \<and>
      Equals r \<noteq> [] \<and> [''a''] = Equals r"
    by simp
  from t h have "serializeFindingCriteria [\<lparr>field = ''region'', condition = ''equals'', vals = []\<rparr>] =
     Inr [''region'' \<mapsto> newCondition] \<and>
   flatCriteria [''region''] [''region'' \<mapsto> newCondition] = [] \<and>
   flattenFindingCriteria [''region''] [''region'' \<mapsto> newCondition] = [[''criterion'' \<mapsto> {}]]"
    by blast
  with h i e show ?thesis by blast
qed




text \<open>
  C1. Flatten of a serialize result does not always give the input back. An \<open>equals\<close>
  criterion without values is accepted and then emitted by nothing; the value \<open>+5\<close>
  comes back as \<open>5\<close>; and of two \<open>less_than\<close> criteria of one field only the second
  comes back.
\<close>

theorem round_trip_counterexample:
  "serializeFindingCriteria [\<lparr>field = ''id'', condition = ''equals'', vals = []\<rparr>] =
     Inr [''id'' \<mapsto> newCondition] \<and>
   iterationOrder [''id''] [''id'' \<mapsto> newCondition] \<and>
   flatCriteria [''id''] [''id'' \<mapsto> newCondition] = [] \<and>
   flattenFindingCriteria [''id''] [''id'' \<mapsto> newCondition] = [[''criterion'' \<mapsto> {}]] \<and>
   serializeFindingCriteria
     [\<lparr>field = ''updatedAt'', condition = ''greater_than'', vals = [''+5'']\<rparr>] =
     Inr [''updatedAt'' \<mapsto> newCondition\<lparr>GreaterThan := Some 5\<rparr>] \<and>
   iterationOrder [''updatedAt''] [''updatedAt'' \<mapsto> newCondition\<lparr>GreaterThan := Some 5\<rparr>] \<and>
   flatCriteria [''updatedAt'']
     [''updatedAt'' \<mapsto> newCondition\<lparr>GreaterThan := Some 5\<rparr>] =
     [\<lparr>field = ''updatedAt'', condition = ''greater_than'', vals = [''5'']\<rparr>] \<and>
   flattenFindingCriteria [''updatedAt'']
     [''updatedAt'' \<mapsto> newCondition\<lparr>GreaterThan := Some 5\<rparr>] =
     [[''criterion'' \<mapsto>
        {\<lparr>field = ''updatedAt'', condition = ''greater_than'', vals = [''5'']\<rparr>}]] \<and>
   serializeFindingCriteria
     [\<lparr>field = ''updatedAt'', condition = ''less_than'', vals = [''5'']\<rparr>,
      \<lparr>field = ''updatedAt'', condition = ''less_than'', vals = [''6'']\<rparr>] =
     Inr [''updatedAt'' \<mapsto> newCondition\<lparr>LessThan := Some 6\<rparr>] \<and>
   iterationOrder [''updatedAt''] [''updatedAt'' \<mapsto> newCondition\<lparr>LessThan := Some 6\<rparr>] \<and>
   flatCriteria [''updatedAt'']
     [''updatedAt'' \<mapsto> newCondition\<lparr>LessThan := Some 6\<rparr>] =
     [\<lparr>field = ''updatedAt'', condition = ''less_than'', vals = [''6'']\<rparr>] \<and>
   flattenFindingCriteria [''updatedAt'']
     [''updatedAt'' \<mapsto> newCondition\<lparr>LessThan := Some 6\<rparr>] =
     [[''criterion'' \<mapsto>
        {\<lparr>field = ''updatedAt'', condition = ''less_than'', vals = [''6'']\<rparr>}]] \<and>
   set (flatCriteria [''id''] [''id'' \<mapsto> newCondition]) \<noteq>
     set [\<lparr>field = ''id'', condition = ''equals'', vals = []\<rparr>]"
  by (simp add: serialize_eval flatten_eval iterationOrder_def flattenFindingCriteria_def
      NewSet_def)

text \<open>
  C1, as amended. Let \<open>serializeFindingCriteria\<close> accept a list in which no two criteria
  have the same field and condition, no \<open>equals\<close> or \<open>not_equals\<close> criterion comes
  after another criterion of the same field, every \<open>equals\<close> or \<open>not_equals\<close> criterion
  has at least one value, and the value of every ordering criterion is a canonical
  integer. Then flatten of the result, in any iteration order, emits exactly the criteria
  of the input, with the same field, condition and values: they are the members of the
  slice it builds, and the set it returns is the set of the input criteria.
\<close>

theorem round_trip:
  assumes "serializeFindingCriteria cs = Inr m"
    and "iterationOrder order m"
    and "distinct (map (\<lambda>c. (field c, condition c)) cs)"
    and "\<forall>i < length cs. condition (cs ! i) \<in> {''equals'', ''not_equals''} \<longrightarrow>
           field (cs ! i) \<notin> field ` set (take i cs)"
    and "\<forall>c \<in> set cs. condition c \<in> {''equals'', ''not_equals''} \<longrightarrow> vals c \<noteq> []"
    and "\<forall>c \<in> set cs. condition c \<notin> {''equals'', ''not_equals''} \<longrightarrow>
           list_all canonicalInt (vals c)"
  shows "set (flatCriteria order m) = set cs \<and>
         flattenFindingCriteria order m = [[''criterion'' \<mapsto> set cs]]"
proof -
  from assms(1) have "serializeLoop cs Map.empty = Inr m"
    by (simp add: serializeFindingCriteria_def)
  from round_trip_loop [OF this assms(3-6)] set_flatCriteria [OF assms(2)]
  have "set (flatCriteria order m) = set cs" by simp
  then show ?thesis by (simp add: flattenFindingCriteria_flat)
qed

theorem round_trip_witness:
  "serializeFindingCriteria
     [\<lparr>field = ''updatedAt'', condition = ''equals'', vals = [''1'', ''2'']\<rparr>,
      \<lparr>field = ''updatedAt'', condition = ''greater_than'', vals = [''5'']\<rparr>,
      \<lparr>field = ''updatedAt'', condition = ''less_than_or_equal'', vals = [''-10'']\<rparr>,
      \<lparr>field = ''id'', condition = ''not_equals'', vals = [''x'']\<rparr>] = Inr [''updatedAt'' \<mapsto> \<lparr>Equals = [''1'', ''2''], NotEquals = [], GreaterThan = Some 5,
          GreaterThanOrEqual = None, LessThan = None, LessThanOrEqual = Some (- 10)\<rparr>,
      ''id'' \<mapsto> \<lparr>Equals = [], NotEquals = [''x''], GreaterThan = None,
          GreaterThanOrEqual = None, LessThan = None, LessThanOrEqual = None\<rparr>] \<and>
   iterationOrder [''id'', ''updatedAt''] [''updatedAt'' \<mapsto> \<lparr>Equals = [''1'', ''2''], NotEquals = [], GreaterThan = Some 5,
          GreaterThanOrEqual = None, LessThan = None, LessThanOrEqual = Some (- 10)\<rparr>,
      ''id'' \<mapsto> \<lparr>Equals = [], NotEquals = [''x''], GreaterThan = None,
          GreaterThanOrEqual = None, LessThan = None, LessThanOrEqual = None\<rparr>] \<and>
   set (flatCriteria [''id'', ''updatedAt''] [''updatedAt'' \<mapsto> \<lparr>Equals = [''1'', ''2''], NotEquals = [], GreaterThan = Some 5,
          GreaterThanOrEqual = None, LessThan = None, LessThanOrEqual = Some (- 10)\<rparr>,
      ''id'' \<mapsto> \<lparr>Equals = [], NotEquals = [''x''], GreaterThan = None,
          GreaterThanOrEqual = None, LessThan = None, LessThanOrEqual = None\<rparr>]) =
   set [\<lparr>field = ''updatedAt'', condition = ''equals'', vals = [''1'', ''2'']\<rparr>,
      \<lparr>field = ''updatedAt'', condition = ''greater_than'', vals = [''5'']\<rparr>,
      \<lparr>field = ''updatedAt'', condition = ''less_than_or_equal'', vals = [''-10'']\<rparr>,
      \<lparr>field = ''id'', condition = ''not_equals'', vals = [''x'']\<rparr>] \<and>
   flattenFindingCriteria [''id'', ''updatedAt''] [''updatedAt'' \<mapsto> \<lparr>Equals = [''1'', ''2''], NotEquals = [], GreaterThan = Some 5,
          GreaterThanOrEqual = None, LessThan = None, LessThanOrEqual = Some (- 10)\<rparr>,
      ''id'' \<mapsto> \<lparr>Equals = [], NotEquals = [''x''], GreaterThan = None,
          GreaterThanOrEqual = None, LessThan = None, LessThanOrEqual = None\<rparr>] =
   [[''criterion'' \<mapsto> set [\<lparr>field = ''updatedAt'', condition = ''equals'', vals = [''1'', ''2'']\<rparr>,
      \<lparr>field = ''updatedAt'', condition = ''greater_than'', vals = [''5'']\<rparr>,
      \<lparr>field = ''updatedAt'', condition = ''less_than_or_equal'', vals = [''-10'']\<rparr>,
      \<lparr>field = ''id'', condition = ''not_equals'', vals = [''x'']\<rparr>]]]"
proof -
  let ?cs = "[\<lparr>field = ''updatedAt'', condition = ''equals'', vals = [''1'', ''2'']\<rparr>,
      \<lparr>field = ''updatedAt'', condition = ''greater_than'', vals = [''5'']\<rparr>,
      \<lparr>field = ''updatedAt'', condition = ''less_than_or_equal'', vals = [''-10'']\<rparr>,
      \<lparr>field = ''id'', condition = ''not_equals'', vals = [''x'']\<rparr>]"
  have s: "serializeFindingCriteria ?cs = Inr [''updatedAt'' \<mapsto> \<lparr>Equals = [''1'', ''2''], NotEquals = [], GreaterThan = Some 5,
          GreaterThanOrEqual = None, LessThan = None, LessThanOrEqual = Some (- 10)\<rparr>,
      ''id'' \<mapsto> \<lparr>Equals = [], NotEquals = [''x''], GreaterThan = None,
          GreaterThanOrEqual = None, LessThan = None, LessThanOrEqual = None\<rparr>]"
    by (simp add: serialize_eval)
  have i: "iterationOrder [''id'', ''updatedAt''] [''updatedAt'' \<mapsto> \<lparr>Equals = [''1'', ''2''], NotEquals = [], GreaterThan = Some 5,
          GreaterThanOrEqual = None, LessThan = None, LessThanOrEqual = Some (- 10)\<rparr>,
      ''id'' \<mapsto> \<lparr>Equals = [], NotEquals = [''x''], GreaterThan = None,
          GreaterThanOrEqual = None, LessThan = None, LessThanOrEqual = None\<rparr>]"
    by (auto simp: iterationOrder_def)
  have d: "distinct (map (\<lambda>c. (field c, condition c)) ?cs)"
    by simp
  have o: "\<forall>i < length ?cs. condition (?cs ! i) \<in> {''equals'', ''not_equals''} \<longrightarrow>
           field (?cs ! i) \<notin> field ` set (take i ?cs)"
  proof (intro allI impI)
    fix i
    assume "i < length ?cs"
    then consider "i = 0" | "i = 1" | "i = 2" | "i = 3"
      by (auto simp: less_Suc_eq numeral_eq_Suc)
    moreover assume "condition (?cs ! i) \<in> {''equals'', ''not_equals''}"
    ultimately show "field (?cs ! i) \<notin> field ` set (take i ?cs)"
      by cases (simp_all add: numeral_eq_Suc)
  qed
  have n: "\<forall>c \<in> set ?cs. condition c \<in> {''equals'', ''not_equals''} \<longrightarrow> vals c \<noteq> []"
    by simp
  have c5: "canonicalInt ''5''" and c10: "canonicalInt ''-10''"
    by (simp_all add: canonicalInt_def parseSigned_def ParseUint_def isDigit_def flatten_eval)
  have c: "\<forall>c \<in> set ?cs. condition c \<notin> {''equals'', ''not_equals''} \<longrightarrow>
           list_all canonicalInt (vals c)"
    using c5 c10 by simp
  note t = round_trip [OF s i d o n c]
  from s i t [THEN conjunct1] t [THEN conjunct2] show ?thesis by (intro conjI)
qed

end
